theory Spec2Isabelle
  imports Complex_Main
begin

section \<open>Domain types (src/domain/types.ts)\<close>

text \<open>
  The source type of every number is \<open>number\<close>.  Prices, budgets, times and match
  counts are the integers the catalog supplies; they are modelled as \<open>int\<close>, which is
  what the source computes as long as the values stay in the range where a double holds
  an integer exactly.  The averages and rates of a player are doubles read from the
  catalog; each is modelled by the rational number it denotes and is only ever compared
  with a threshold.  The multipliers of the recommendation engine are computed in double
  arithmetic, which the section on the bid calculator models.
  A field whose source name is taken by a HOL constant or by another record of this
  theory carries a prefix or suffix (\<open>player_id\<close>, \<open>team_id\<close>, \<open>bid_teamId\<close>,
  \<open>min_r\<close>, \<open>max_r\<close>).
\<close>

datatype PlayerRole = Batter | Bowler | AllRounder | WicketKeeper

datatype PlayerNationality = Domestic | Overseas

record PlayerStats =
  matches :: int
  battingAverage :: "rat option"
  bowlingAverage :: "rat option"
  strikeRate :: "rat option"
  economyRate :: "rat option"

record Player =
  player_id :: string
  player_name :: string
  role :: PlayerRole
  nationality :: PlayerNationality
  basePrice :: int
  stats :: PlayerStats

record Team =
  team_id :: string
  team_name :: string
  shortName :: string
  budget :: int
  primaryColor :: string

record AcquiredPlayer =
  playerId :: string
  purchasePrice :: int

record TeamState =
  teamId :: string
  remainingBudget :: int
  squad :: "AcquiredPlayer list"

record RoleLimit =
  min_r :: int
  max_r :: int

record SquadConstraints =
  minSquadSize :: int
  maxSquadSize :: int
  maxOverseasPlayers :: int
  roleConstraints :: "PlayerRole \<Rightarrow> RoleLimit"

record CurrentBid =
  bid_teamId :: string
  amount :: int

text \<open>
  The status message of a state is a template string filled with names and numbers.
  The model keeps the template and its arguments; the rendering to text is not modelled.
\<close>

datatype StatusMessage =
    MsgWelcome
  | MsgBiddingStarted string
  | MsgBid string int
  | MsgInvalidBid string
  | MsgSold string string int
  | MsgUnsoldNoBids string
  | MsgUnsoldPassed string

datatype AuctionPhase = PhaseIdle | PhaseBidding | PhaseSold | PhaseUnsold | PhaseCompleted

text \<open>
  The three fields every variant of \<open>AuctionState\<close> carries.  \<open>IdleAuctionState\<close> and
  \<open>CompletedAuctionState\<close> have exactly these; the other variants extend them.
\<close>

record SharedFields =
  completedPlayerIds :: "string list"
  teams :: "TeamState list"
  message :: "StatusMessage option"

record BiddingAuctionState = SharedFields +
  currentPlayer :: Player
  currentBid :: "CurrentBid option"
  timeRemaining :: int

record SoldAuctionState = SharedFields +
  soldPlayer :: Player
  winningBid :: CurrentBid

record UnsoldAuctionState = SharedFields +
  unsoldPlayer :: Player

datatype AuctionState =
    Idle SharedFields
  | Bidding BiddingAuctionState
  | Sold SoldAuctionState
  | Unsold UnsoldAuctionState
  | Completed SharedFields

fun phase :: "AuctionState \<Rightarrow> AuctionPhase" where
  "phase (Idle s) = PhaseIdle"
| "phase (Bidding s) = PhaseBidding"
| "phase (Sold s) = PhaseSold"
| "phase (Unsold s) = PhaseUnsold"
| "phase (Completed s) = PhaseCompleted"

fun stateCompletedPlayerIds :: "AuctionState \<Rightarrow> string list" where
  "stateCompletedPlayerIds (Idle s) = completedPlayerIds s"
| "stateCompletedPlayerIds (Bidding s) = completedPlayerIds s"
| "stateCompletedPlayerIds (Sold s) = completedPlayerIds s"
| "stateCompletedPlayerIds (Unsold s) = completedPlayerIds s"
| "stateCompletedPlayerIds (Completed s) = completedPlayerIds s"

fun stateTeams :: "AuctionState \<Rightarrow> TeamState list" where
  "stateTeams (Idle s) = teams s"
| "stateTeams (Bidding s) = teams s"
| "stateTeams (Sold s) = teams s"
| "stateTeams (Unsold s) = teams s"
| "stateTeams (Completed s) = teams s"

fun stateMessage :: "AuctionState \<Rightarrow> StatusMessage option" where
  "stateMessage (Idle s) = message s"
| "stateMessage (Bidding s) = message s"
| "stateMessage (Sold s) = message s"
| "stateMessage (Unsold s) = message s"
| "stateMessage (Completed s) = message s"

datatype AuctionAction =
    START_BIDDING Player
  | PLACE_BID string int
  | INVALID_BID string
  | TIME_EXPIRED
  | PLAYER_SOLD
  | PLAYER_UNSOLD
  | RESET_TO_IDLE
  | TIMER_TICK

datatype ValidationErrorCode =
    INSUFFICIENT_BUDGET
  | SQUAD_FULL
  | ROLE_LIMIT_EXCEEDED
  | OVERSEAS_LIMIT_EXCEEDED
  | BID_TOO_LOW
  | NOT_YOUR_TURN
  | AUCTION_NOT_ACTIVE

datatype ContextValue = NumV int | StrV string | RoleV PlayerRole

text \<open>As for the status message, the text of a violation is kept as template and arguments.\<close>

datatype ErrorMessage =
    TeamNotFoundMsg
  | BidTooLowMsg int int
  | InsufficientBudgetMsg int int
  | SquadFullMsg int
  | RoleLimitMsg PlayerRole int int
  | OverseasLimitMsg int int

record ValidationError =
  code :: ValidationErrorCode
  error_message :: ErrorMessage
  error_context :: "(string \<times> ContextValue) list"

datatype ValidationResult = Valid | Invalid "ValidationError list"

fun isValid :: "ValidationResult \<Rightarrow> bool" where
  "isValid Valid = True"
| "isValid (Invalid es) = False"

fun errors :: "ValidationResult \<Rightarrow> ValidationError list" where
  "errors Valid = []"
| "errors (Invalid es) = es"

subsection \<open>Constants\<close>

definition DEFAULT_SQUAD_CONSTRAINTS :: SquadConstraints where
  "DEFAULT_SQUAD_CONSTRAINTS =
     \<lparr> minSquadSize = 15, maxSquadSize = 25, maxOverseasPlayers = 8,
       roleConstraints = (\<lambda>r. case r of
           Batter \<Rightarrow> \<lparr> min_r = 3, max_r = 8 \<rparr>
         | Bowler \<Rightarrow> \<lparr> min_r = 3, max_r = 8 \<rparr>
         | AllRounder \<Rightarrow> \<lparr> min_r = 2, max_r = 6 \<rparr>
         | WicketKeeper \<Rightarrow> \<lparr> min_r = 1, max_r = 3 \<rparr>) \<rparr>"

definition INITIAL_BID_TIME :: int where
  "INITIAL_BID_TIME = 60"

definition BID_INCREMENT_MIN :: int where
  "BID_INCREMENT_MIN = 5"

definition TIME_EXTENSION_ON_BID :: int where
  "TIME_EXTENSION_ON_BID = 15"

definition MAX_TIME_EXTENSION :: int where
  "MAX_TIME_EXTENSION = 60"

section \<open>Squad validator (src/domain/squadValidator.ts)\<close>

text \<open>
  \<open>new Map(allPlayers.map(p => [p.id, p]))\<close>: entries are stored in order, so the last
  player of the catalog with a given id is the one the map returns.
\<close>

definition playerMap :: "Player list \<Rightarrow> string \<Rightarrow> Player option" where
  "playerMap allPlayers = foldl (\<lambda>m p. m(player_id p \<mapsto> p)) Map.empty allPlayers"

definition countPlayersByRole ::
    "AcquiredPlayer list \<Rightarrow> Player list \<Rightarrow> PlayerRole \<Rightarrow> nat option" where
  "countPlayersByRole squad_list allPlayers =
     foldl (\<lambda>counts acquired.
              case playerMap allPlayers (playerId acquired) of
                Some player \<Rightarrow>
                  (let currentCount = (case counts (role player) of Some c \<Rightarrow> c | None \<Rightarrow> 0)
                   in counts(role player \<mapsto> currentCount + 1))
              | None \<Rightarrow> counts)
           Map.empty squad_list"

definition countOverseasPlayers :: "AcquiredPlayer list \<Rightarrow> Player list \<Rightarrow> nat" where
  "countOverseasPlayers squad_list allPlayers =
     length (filter (\<lambda>acquired.
                       case playerMap allPlayers (playerId acquired) of
                         Some player \<Rightarrow> nationality player = Overseas
                       | None \<Rightarrow> False)
                    squad_list)"

definition validateBudget :: "TeamState \<Rightarrow> int \<Rightarrow> ValidationResult" where
  "validateBudget teamState bidAmount =
     (if bidAmount > remainingBudget teamState then
        Invalid [\<lparr> code = INSUFFICIENT_BUDGET,
                   error_message = InsufficientBudgetMsg bidAmount (remainingBudget teamState),
                   error_context =
                     [(''required'', NumV bidAmount),
                      (''available'', NumV (remainingBudget teamState)),
                      (''shortfall'', NumV (bidAmount - remainingBudget teamState))] \<rparr>]
      else Valid)"

definition validateSquadSize :: "TeamState \<Rightarrow> SquadConstraints \<Rightarrow> ValidationResult" where
  "validateSquadSize teamState constraints =
     (if int (length (squad teamState)) \<ge> maxSquadSize constraints then
        Invalid [\<lparr> code = SQUAD_FULL,
                   error_message = SquadFullMsg (maxSquadSize constraints),
                   error_context =
                     [(''currentSize'', NumV (int (length (squad teamState)))),
                      (''maxSize'', NumV (maxSquadSize constraints))] \<rparr>]
      else Valid)"

definition validateRoleLimits ::
    "TeamState \<Rightarrow> Player \<Rightarrow> Player list \<Rightarrow> SquadConstraints \<Rightarrow> ValidationResult" where
  "validateRoleLimits teamState newPlayer allPlayers constraints =
     (let roleCount = countPlayersByRole (squad teamState) allPlayers;
          currentCount = (case roleCount (role newPlayer) of Some c \<Rightarrow> int c | None \<Rightarrow> 0);
          maxForRole = max_r (roleConstraints constraints (role newPlayer))
      in if currentCount \<ge> maxForRole then
           Invalid [\<lparr> code = ROLE_LIMIT_EXCEEDED,
                      error_message = RoleLimitMsg (role newPlayer) maxForRole currentCount,
                      error_context =
                        [(''role'', RoleV (role newPlayer)),
                         (''currentCount'', NumV currentCount),
                         (''maxCount'', NumV maxForRole)] \<rparr>]
         else Valid)"

definition validateOverseasLimits ::
    "TeamState \<Rightarrow> Player \<Rightarrow> Player list \<Rightarrow> SquadConstraints \<Rightarrow> ValidationResult" where
  "validateOverseasLimits teamState newPlayer allPlayers constraints =
     (if nationality newPlayer \<noteq> Overseas then Valid
      else
        (let overseasCount = int (countOverseasPlayers (squad teamState) allPlayers)
         in if overseasCount \<ge> maxOverseasPlayers constraints then
              Invalid [\<lparr> code = OVERSEAS_LIMIT_EXCEEDED,
                         error_message =
                           OverseasLimitMsg (maxOverseasPlayers constraints) overseasCount,
                         error_context =
                           [(''currentCount'', NumV overseasCount),
                            (''maxCount'', NumV (maxOverseasPlayers constraints))] \<rparr>]
            else Valid))"

text \<open>
  The source pushes onto a local array \<open>errors\<close> after each of the four checks; the
  model threads that array through \<open>errors0 .. errors4\<close>.
\<close>

definition validatePlayerAcquisition ::
    "TeamState \<Rightarrow> Player \<Rightarrow> int \<Rightarrow> Player list \<Rightarrow> SquadConstraints \<Rightarrow> ValidationResult" where
  "validatePlayerAcquisition teamState player bidAmount allPlayers constraints =
     (let errors0 = [];
          budgetResult = validateBudget teamState bidAmount;
          errors1 = (if \<not> isValid budgetResult then errors0 @ errors budgetResult else errors0);
          squadSizeResult = validateSquadSize teamState constraints;
          errors2 = (if \<not> isValid squadSizeResult then errors1 @ errors squadSizeResult
                     else errors1);
          roleResult = validateRoleLimits teamState player allPlayers constraints;
          errors3 = (if \<not> isValid roleResult then errors2 @ errors roleResult else errors2);
          overseasResult = validateOverseasLimits teamState player allPlayers constraints;
          errors4 = (if \<not> isValid overseasResult then errors3 @ errors overseasResult
                     else errors3)
      in if length errors4 = 0 then Valid else Invalid errors4)"

section \<open>Auction rules (src/domain/auctionRules.ts)\<close>

definition getMinimumValidBid :: "BiddingAuctionState \<Rightarrow> int" where
  "getMinimumValidBid state =
     (case currentBid state of
        None \<Rightarrow> basePrice (currentPlayer state)
      | Some bid \<Rightarrow> amount bid + BID_INCREMENT_MIN)"

definition validateBid ::
    "BiddingAuctionState \<Rightarrow> string \<Rightarrow> int \<Rightarrow> Player list \<Rightarrow> ValidationResult" where
  "validateBid state tid bidAmount allPlayers =
     (case find (\<lambda>t. teamId t = tid) (teams state) of
        None \<Rightarrow>
          Invalid [\<lparr> code = NOT_YOUR_TURN, error_message = TeamNotFoundMsg,
                     error_context = [(''teamId'', StrV tid)] \<rparr>]
      | Some teamState \<Rightarrow>
          (let minValidBid = getMinimumValidBid state
           in if bidAmount < minValidBid then
                Invalid [\<lparr> code = BID_TOO_LOW,
                           error_message = BidTooLowMsg minValidBid BID_INCREMENT_MIN,
                           error_context =
                             [(''bidAmount'', NumV bidAmount),
                              (''minimumRequired'', NumV minValidBid),
                              (''increment'', NumV BID_INCREMENT_MIN)] \<rparr>]
              else validatePlayerAcquisition teamState (currentPlayer state) bidAmount
                     allPlayers DEFAULT_SQUAD_CONSTRAINTS))"

definition calculateTimeAfterBid :: "int \<Rightarrow> int" where
  "calculateTimeAfterBid currentTime =
     (let extended = currentTime + TIME_EXTENSION_ON_BID
      in min extended MAX_TIME_EXTENSION)"

definition finalizePlayerPurchase :: "TeamState \<Rightarrow> string \<Rightarrow> int \<Rightarrow> TeamState" where
  "finalizePlayerPurchase teamState pid price =
     teamState\<lparr> remainingBudget := remainingBudget teamState - price,
                squad := squad teamState @ [\<lparr> playerId = pid, purchasePrice = price \<rparr>] \<rparr>"

definition updateTeamsAfterSale ::
    "TeamState list \<Rightarrow> string \<Rightarrow> string \<Rightarrow> int \<Rightarrow> TeamState list" where
  "updateTeamsAfterSale team_list winningTeamId pid price =
     map (\<lambda>team. if teamId team = winningTeamId
                  then finalizePlayerPurchase team pid price
                  else team)
         team_list"

section \<open>The reducer (src/hooks/useAuction.ts)\<close>

text \<open>
  \<open>console.warn\<close> does not change the state and is not modelled.  The \<open>default\<close> branch
  of the switch is unreachable for a value of the action type.
\<close>

fun auctionReducer :: "AuctionState \<Rightarrow> AuctionAction \<Rightarrow> AuctionState" where
  "auctionReducer state (START_BIDDING player) =
     (case state of
        Idle s \<Rightarrow>
          Bidding \<lparr> completedPlayerIds = completedPlayerIds s, teams = teams s,
                    message = Some (MsgBiddingStarted (player_name player)),
                    currentPlayer = player, currentBid = None,
                    timeRemaining = INITIAL_BID_TIME \<rparr>
      | _ \<Rightarrow> state)"
| "auctionReducer state (PLACE_BID tid amt) =
     (case state of
        Bidding s \<Rightarrow>
          Bidding (s\<lparr> currentBid := Some \<lparr> bid_teamId = tid, amount = amt \<rparr>,
                      timeRemaining := calculateTimeAfterBid (timeRemaining s),
                      message := Some (MsgBid tid amt) \<rparr>)
      | _ \<Rightarrow> state)"
| "auctionReducer state (INVALID_BID reason) =
     (case state of
        Bidding s \<Rightarrow> Bidding (s\<lparr> message := Some (MsgInvalidBid reason) \<rparr>)
      | _ \<Rightarrow> state)"
| "auctionReducer state TIMER_TICK =
     (case state of
        Bidding s \<Rightarrow>
          (let newTime = timeRemaining s - 1
           in if newTime \<le> 0 then Bidding (s\<lparr> timeRemaining := 0 \<rparr>)
              else Bidding (s\<lparr> timeRemaining := newTime \<rparr>))
      | _ \<Rightarrow> state)"
| "auctionReducer state TIME_EXPIRED =
     (case state of
        Bidding s \<Rightarrow>
          (case currentBid s of
             Some bid \<Rightarrow>
               Sold \<lparr> completedPlayerIds = completedPlayerIds s @ [player_id (currentPlayer s)],
                      teams = updateTeamsAfterSale (teams s) (bid_teamId bid)
                                (player_id (currentPlayer s)) (amount bid),
                      message = Some (MsgSold (player_name (currentPlayer s)) (bid_teamId bid)
                                        (amount bid)),
                      soldPlayer = currentPlayer s, winningBid = bid \<rparr>
           | None \<Rightarrow>
               Unsold \<lparr> completedPlayerIds =
                          completedPlayerIds s @ [player_id (currentPlayer s)],
                        teams = teams s,
                        message = Some (MsgUnsoldNoBids (player_name (currentPlayer s))),
                        unsoldPlayer = currentPlayer s \<rparr>)
      | _ \<Rightarrow> state)"
| "auctionReducer state PLAYER_SOLD =
     (case state of
        Bidding s \<Rightarrow>
          (case currentBid s of
             None \<Rightarrow> state
           | Some bid \<Rightarrow>
               Sold \<lparr> completedPlayerIds = completedPlayerIds s @ [player_id (currentPlayer s)],
                      teams = updateTeamsAfterSale (teams s) (bid_teamId bid)
                                (player_id (currentPlayer s)) (amount bid),
                      message = Some (MsgSold (player_name (currentPlayer s)) (bid_teamId bid)
                                        (amount bid)),
                      soldPlayer = currentPlayer s, winningBid = bid \<rparr>)
      | _ \<Rightarrow> state)"
| "auctionReducer state PLAYER_UNSOLD =
     (case state of
        Bidding s \<Rightarrow>
          Unsold \<lparr> completedPlayerIds = completedPlayerIds s @ [player_id (currentPlayer s)],
                   teams = teams s,
                   message = Some (MsgUnsoldPassed (player_name (currentPlayer s))),
                   unsoldPlayer = currentPlayer s \<rparr>
      | _ \<Rightarrow> state)"
| "auctionReducer state RESET_TO_IDLE =
     Idle \<lparr> completedPlayerIds = stateCompletedPlayerIds state, teams = stateTeams state,
            message = None \<rparr>"

definition createInitialState :: "Team list \<Rightarrow> AuctionState" where
  "createInitialState team_list =
     (let teamStates = map (\<lambda>team. \<lparr> teamId = team_id team, remainingBudget = budget team,
                                     squad = [] \<rparr>) team_list
      in Idle \<lparr> completedPlayerIds = [], teams = teamStates, message = Some MsgWelcome \<rparr>)"

section \<open>Bid calculator (src/domain/bidCalculator.ts)\<close>

text \<open>
  The explanation strings of the reasoning entries are display text computed from the
  same multipliers; the model keeps the factor name and the impact of each entry, which
  is all that the confidence and the ceiling depend on.
\<close>

datatype Impact = Positive | Negative | Neutral

datatype Confidence = Low | Medium | High

record ReasoningFactor =
  factor :: string
  impact :: Impact

record BidRecommendation =
  recommendedMaxBid :: int
  confidence :: Confidence
  reasoning :: "ReasoningFactor list"

subsection \<open>Double arithmetic\<close>

text \<open>
  The multipliers are IEEE 754 binary64 numbers.  A finite double is modelled by the
  rational number it denotes, and every fractional literal, sum and product of the source
  is rounded to the nearest double, ties to the even significand, as the language does:
  \<open>fl x\<close> scales \<open>x\<close> by the unit in the last place of its binade, so that the
  significand has 53 bits, and rounds the scaled value with \<open>rne\<close>.
  \<open>binade x\<close> is the greatest power of two not above a positive \<open>x\<close>, found by
  halving \<open>x\<close> down to below 2 (\<open>pow2_up\<close>) or doubling it up to 1 (\<open>pow2_down\<close>).
  The exponent range is not bounded: overflow, subnormal numbers, infinities, NaN and the
  sign of zero are not modelled.  None of them arises here, where integers below
  \<open>2 ^ 53\<close> are multiplied by factors between 0 and 5.  Comparisons, \<open>Math.min\<close>
  and \<open>Math.round\<close> are exact on doubles, and so are sums of integers in that range.
\<close>

definition rne :: "rat \<Rightarrow> int" where
  "rne m =
     (let f = \<lfloor>m\<rfloor>; d = m - of_int f
      in if d < 1/2 then f
         else if d > 1/2 then f + 1
         else if even f then f else f + 1)"

function pow2_up :: "rat \<Rightarrow> rat" where
  "pow2_up x = (if 2 \<le> x then 2 * pow2_up (x / 2) else 1)"
  by pat_completeness auto
termination
proof (relation "measure (\<lambda>x. nat \<lfloor>x\<rfloor>)")
  show "wf (measure (\<lambda>x::rat. nat \<lfloor>x\<rfloor>))" by simp
next
  fix x :: rat
  assume x: "2 \<le> x"
  have "x / 2 + 1 \<le> x" using x by simp
  then have "\<lfloor>x / 2 + 1\<rfloor> \<le> \<lfloor>x\<rfloor>" by (rule floor_mono)
  then have a: "\<lfloor>x / 2\<rfloor> + 1 \<le> \<lfloor>x\<rfloor>" by simp
  have b: "0 \<le> \<lfloor>x / 2\<rfloor>" using x by simp
  from a b have "nat \<lfloor>x / 2\<rfloor> < nat \<lfloor>x\<rfloor>" by linarith
  then show "(x / 2, x) \<in> measure (\<lambda>x. nat \<lfloor>x\<rfloor>)" by simp
qed

function pow2_down :: "rat \<Rightarrow> rat" where
  "pow2_down x = (if 0 < x \<and> x < 1 then pow2_down (2 * x) / 2 else 1)"
  by pat_completeness auto
termination
proof (relation "measure (\<lambda>x. nat \<lfloor>1 / x\<rfloor>)")
  show "wf (measure (\<lambda>x::rat. nat \<lfloor>1 / x\<rfloor>))" by simp
next
  fix x :: rat
  assume x: "0 < x \<and> x < 1"
  define y where "y = 1 / x"
  have y: "1 < y" using x by (simp add: y_def)
  have h: "1 / (2 * x) = y / 2" by (simp add: y_def)
  have a: "of_int \<lfloor>y / 2\<rfloor> \<le> y / 2" by (rule of_int_floor_le)
  have "of_int (2 * \<lfloor>y / 2\<rfloor>) = 2 * (of_int \<lfloor>y / 2\<rfloor> :: rat)" by simp
  with a have "of_int (2 * \<lfloor>y / 2\<rfloor>) \<le> y" by linarith
  then have b: "2 * \<lfloor>y / 2\<rfloor> \<le> \<lfloor>y\<rfloor>" by (rule le_floor_iff [THEN iffD2])
  have c: "1 \<le> \<lfloor>y\<rfloor>" using y by simp
  have d: "0 \<le> \<lfloor>y / 2\<rfloor>" using y by simp
  from b c d have "nat \<lfloor>y / 2\<rfloor> < nat \<lfloor>y\<rfloor>" by linarith
  then show "(2 * x, x) \<in> measure (\<lambda>x. nat \<lfloor>1 / x\<rfloor>)"
    unfolding in_measure h y_def [symmetric] .
qed

declare pow2_up.simps [simp del] pow2_down.simps [simp del]

definition binade :: "rat \<Rightarrow> rat" where
  "binade x = (if 1 \<le> x then pow2_up x else pow2_down x)"

definition fl_pos :: "rat \<Rightarrow> rat" where
  "fl_pos x = (let u = binade x / 2 ^ 52 in of_int (rne (x / u)) * u)"

definition fl :: "rat \<Rightarrow> rat" where
  "fl x = (if x = 0 then 0 else if 0 < x then fl_pos x else - fl_pos (- x))"

subsection \<open>The multipliers\<close>

text \<open>
  \<open>multiplier += 0.3\<close> is the double sum of the running multiplier and the double
  nearest to 0.3: \<open>fl (m + fl (3/10))\<close>.
\<close>

definition calculateQualityMultiplier :: "Player \<Rightarrow> rat" where
  "calculateQualityMultiplier player =
     (let st = stats player;
          m0 = 1;
          m1 = (if matches st > 100 then fl (m0 + fl (3/10))
                else if matches st > 50 then fl (m0 + fl (15/100)) else m0);
          m2 = (case battingAverage st of
                  Some avg \<Rightarrow> (if avg > 40 then fl (m1 + fl (4/10))
                                else if avg > 30 then fl (m1 + fl (2/10)) else m1)
                | None \<Rightarrow> m1);
          m3 = (case strikeRate st of
                  Some sr \<Rightarrow> (if sr > 150 then fl (m2 + fl (3/10))
                               else if sr > 130 then fl (m2 + fl (15/100)) else m2)
                | None \<Rightarrow> m2);
          m4 = (case bowlingAverage st of
                  Some avg \<Rightarrow> (if avg < 20 then fl (m3 + fl (4/10))
                                else if avg < 25 then fl (m3 + fl (2/10)) else m3)
                | None \<Rightarrow> m3);
          m5 = (case economyRate st of
                  Some er \<Rightarrow> (if er < 7 then fl (m4 + fl (3/10))
                               else if er < 8 then fl (m4 + fl (15/100)) else m4)
                | None \<Rightarrow> m4)
      in m5)"

definition calculateRoleScarcity :: "PlayerRole \<Rightarrow> TeamState \<Rightarrow> Player list \<Rightarrow> rat" where
  "calculateRoleScarcity r teamState allPlayers =
     (let roleCount = countPlayersByRole (squad teamState) allPlayers;
          current = (case roleCount r of Some c \<Rightarrow> int c | None \<Rightarrow> 0);
          constraints = roleConstraints DEFAULT_SQUAD_CONSTRAINTS r
      in if current < min_r constraints then
           (let shortfall = min_r constraints - current
            in fl (1 + fl (of_int shortfall * fl (2/10))))
         else if current \<ge> max_r constraints then fl (5/10)
         else 1)"

definition calculateOverseasMultiplier :: "TeamState \<Rightarrow> Player list \<Rightarrow> rat" where
  "calculateOverseasMultiplier teamState allPlayers =
     (let overseasCount = int (countOverseasPlayers (squad teamState) allPlayers);
          maxOverseas = maxOverseasPlayers DEFAULT_SQUAD_CONSTRAINTS;
          slotsRemaining = maxOverseas - overseasCount
      in if slotsRemaining \<le> 0 then 0
         else if slotsRemaining \<le> 2 then fl (8/10)
         else 1)"

definition calculateBudgetCap :: "TeamState \<Rightarrow> int" where
  "calculateBudgetCap teamState =
     (let playersNeeded = minSquadSize DEFAULT_SQUAD_CONSTRAINTS - int (length (squad teamState))
      in if playersNeeded \<le> 0 then remainingBudget teamState
         else
           (let reserveAmount = max 0 ((playersNeeded - 1) * 20);
                spendableAmount = remainingBudget teamState - reserveAmount
            in max 20 spendableAmount))"

definition calculateConfidence :: "ReasoningFactor list \<Rightarrow> Confidence" where
  "calculateConfidence rs =
     (let positives = length (filter (\<lambda>r. impact r = Positive) rs);
          negatives = length (filter (\<lambda>r. impact r = Negative) rs)
      in if negatives \<ge> 2 then Low
         else if positives \<ge> 2 \<and> negatives = 0 then High
         else Medium)"

text \<open>
  \<open>Math.round\<close> returns the integer nearest to the value of its argument, a half
  towards plus infinity; it is computed on the exact value of the double.
\<close>

definition math_round :: "rat \<Rightarrow> int" where
  "math_round x = \<lfloor>x + 1/2\<rfloor>"

text \<open>
  The source updates the local variables \<open>recommendedBid\<close> and \<open>reasoning\<close> stage by
  stage; the model numbers their successive values.  Every product is a double product.
  \<open>currentBid + 5\<close> is a sum of integers.
\<close>

definition calculateBidRecommendation ::
    "Player \<Rightarrow> TeamState \<Rightarrow> Player list \<Rightarrow> int option \<Rightarrow> BidRecommendation" where
  "calculateBidRecommendation player teamState allPlayers currentBidAmount =
     (let reasoning0 = [];
          recommendedBid0 = of_int (basePrice player);
          qualityMultiplier = calculateQualityMultiplier player;
          qualityAdjustedBid = fl (recommendedBid0 * qualityMultiplier);
          reasoning1 = reasoning0 @
            [\<lparr> factor = ''Player Quality'',
               impact = (if qualityMultiplier > 1 then Positive
                         else if qualityMultiplier < 1 then Negative else Neutral) \<rparr>];
          recommendedBid1 = qualityAdjustedBid;
          scarcityMultiplier = calculateRoleScarcity (role player) teamState allPlayers;
          scarcityAdjustedBid = fl (recommendedBid1 * scarcityMultiplier);
          reasoning2 = reasoning1 @
            [\<lparr> factor = ''Role Scarcity'',
               impact = (if scarcityMultiplier > 1 then Positive
                         else if scarcityMultiplier < 1 then Negative else Neutral) \<rparr>];
          recommendedBid2 = scarcityAdjustedBid;
          (recommendedBid3, reasoning3) =
            (if nationality player = Overseas then
               (let overseasMultiplier = calculateOverseasMultiplier teamState allPlayers
                in (fl (recommendedBid2 * overseasMultiplier),
                    reasoning2 @
                      [\<lparr> factor = ''Overseas Slot'',
                         impact = (if overseasMultiplier > 1 then Positive
                                   else if overseasMultiplier < 1 then Negative
                                   else Neutral) \<rparr>]))
             else (recommendedBid2, reasoning2));
          budgetCap = of_int (calculateBudgetCap teamState);
          originalRecommendation = recommendedBid3;
          recommendedBid4 = min recommendedBid3 budgetCap;
          reasoning4 = reasoning3 @
            [\<lparr> factor = ''Budget Constraint'',
               impact = (if recommendedBid4 < originalRecommendation then Negative
                         else Neutral) \<rparr>];
          (recommendedBid5, reasoning5) =
            (case currentBidAmount of
               Some cb \<Rightarrow>
                 (if recommendedBid4 \<le> of_int cb then
                    (of_int (cb + 5),
                     reasoning4 @ [\<lparr> factor = ''Current Bid'', impact = Neutral \<rparr>])
                  else (recommendedBid4, reasoning4))
             | None \<Rightarrow> (recommendedBid4, reasoning4));
          conf = calculateConfidence reasoning5
      in \<lparr> recommendedMaxBid = math_round recommendedBid5, confidence = conf,
           reasoning = reasoning5 \<rparr>)"

section \<open>Dispatching events (src/hooks/useAuction.ts, placeBid)\<close>




section \<open>Concrete inputs\<close>

definition ex_player :: Player where
  "ex_player =
     \<lparr> player_id = ''p1'', player_name = ''Asha'', role = WicketKeeper,
       nationality = Domestic, basePrice = 50,
       stats = \<lparr> matches = 10, battingAverage = Some 20, bowlingAverage = None,
                 strikeRate = None, economyRate = None \<rparr> \<rparr>"

definition ex_teams :: "TeamState list" where
  "ex_teams =
     [\<lparr> teamId = ''team-1'', remainingBudget = 1000, squad = [] \<rparr>,
      \<lparr> teamId = ''team-3'', remainingBudget = 500, squad = [] \<rparr>]"

definition ex_bidding :: BiddingAuctionState where
  "ex_bidding =
     \<lparr> completedPlayerIds = [], teams = ex_teams, message = None,
       currentPlayer = ex_player, currentBid = None, timeRemaining = 60 \<rparr>"

definition ex_bidding_bid :: BiddingAuctionState where
  "ex_bidding_bid = ex_bidding\<lparr> currentBid := Some \<lparr> bid_teamId = ''team-3'', amount = 120 \<rparr> \<rparr>"

definition ex_team_list :: "Team list" where
  "ex_team_list =
     [\<lparr> team_id = ''team-1'', team_name = ''One'', shortName = ''ONE'', budget = 1000,
        primaryColor = ''red'' \<rparr>,
      \<lparr> team_id = ''team-3'', team_name = ''Three'', shortName = ''THR'', budget = 500,
        primaryColor = ''blue'' \<rparr>]"

definition ex_keeper :: "string \<Rightarrow> Player" where
  "ex_keeper i = ex_player\<lparr> player_id := i \<rparr>"

definition ex_catalog :: "Player list" where
  "ex_catalog = [ex_keeper ''k1'', ex_keeper ''k2'', ex_keeper ''k3'', ex_player]"

definition ex_keepers_team :: TeamState where
  "ex_keepers_team =
     \<lparr> teamId = ''team-2'', remainingBudget = 40,
       squad = [\<lparr> playerId = ''k1'', purchasePrice = 20 \<rparr>,
                \<lparr> playerId = ''k2'', purchasePrice = 20 \<rparr>,
                \<lparr> playerId = ''k3'', purchasePrice = 20 \<rparr>] \<rparr>"

definition ex_bidding_keepers :: BiddingAuctionState where
  "ex_bidding_keepers = ex_bidding\<lparr> teams := [ex_keepers_team] \<rparr>"

definition ex_complete_team :: TeamState where
  "ex_complete_team =
     \<lparr> teamId = ''team-4'', remainingBudget = 10,
       squad = map (\<lambda>i. \<lparr> playerId = i, purchasePrice = 20 \<rparr>)
                 [''s01'', ''s02'', ''s03'', ''s04'', ''s05'', ''s06'', ''s07'', ''s08'',
                  ''s09'', ''s10'', ''s11'', ''s12'', ''s13'', ''s14'', ''s15''] \<rparr>"

definition ex_fresh_team :: TeamState where
  "ex_fresh_team = \<lparr> teamId = ''team-5'', remainingBudget = 1000, squad = [] \<rparr>"









section \<open>Notions used in the proofs\<close>

text \<open>
  These are not functions of the source.  \<open>cappedEstimate\<close> names the value the local
  variable \<open>recommendedBid\<close> of \<open>calculateBidRecommendation\<close> holds after the budget
  stage and before the current-bid stage.  \<open>isPow2\<close> says that a rational is a power of
  two.  \<open>firstHolderPoorest\<close> says that no team has less budget left than the first team
  of the list carrying the same id, the one \<open>validateBid\<close> finds.  \<open>budgetInvariant\<close>
  is the inductive invariant of the budget property: no remaining budget is negative,
  \<open>firstHolderPoorest\<close> holds, and in a bidding state every team carrying the id of the
  current bid can pay its amount.
\<close>

definition cappedEstimate :: "Player \<Rightarrow> TeamState \<Rightarrow> Player list \<Rightarrow> rat" where
  "cappedEstimate player teamState allPlayers =
     (let rb2 = fl (fl (of_int (basePrice player) * calculateQualityMultiplier player)
                     * calculateRoleScarcity (role player) teamState allPlayers);
          rb3 = (if nationality player = Overseas
                 then fl (rb2 * calculateOverseasMultiplier teamState allPlayers) else rb2)
      in min rb3 (of_int (calculateBudgetCap teamState)))"

definition isPow2 :: "rat \<Rightarrow> bool" where
  "isPow2 b \<longleftrightarrow> (\<exists>k::int. b = 2 powi k)"




section \<open>Properties of the state machine\<close>

lemma calculateTimeAfterBid_le: "calculateTimeAfterBid t \<le> 60"
  by (simp add: calculateTimeAfterBid_def MAX_TIME_EXTENSION_def)

lemma updateTeamsAfterSale_length:
  "length (updateTeamsAfterSale ts w pid price) = length ts"
  by (simp add: updateTeamsAfterSale_def)

lemma updateTeamsAfterSale_nth:
  "i < length ts \<Longrightarrow>
   updateTeamsAfterSale ts w pid price ! i =
     (if teamId (ts ! i) = w then finalizePlayerPurchase (ts ! i) pid price else ts ! i)"
  by (simp add: updateTeamsAfterSale_def)

lemma place_bids_stay_bidding:
  "\<exists>b'. foldl auctionReducer (Bidding b) (map (\<lambda>(t, a). PLACE_BID t a) bids) = Bidding b'"
  by (induction bids arbitrary: b) auto

subsection \<open>Minimum valid bid\<close>

text \<open>
  Claim C7.  For a bidding state, \<open>getMinimumValidBid\<close> is the base price of the current
  player when there is no current bid, and the amount of the current bid plus 5 when
  there is one.  With base price 50 and no bid it is 50, and in the state that
  \<open>PLACE_BID\<close> of 50 produces it is 55.
\<close>

theorem getMinimumValidBid_spec:
  "getMinimumValidBid b =
     (case currentBid b of None \<Rightarrow> basePrice (currentPlayer b) | Some cb \<Rightarrow> amount cb + 5)
   \<and> (currentBid b = None \<and> basePrice (currentPlayer b) = 50 \<longrightarrow>
        getMinimumValidBid b = 50 \<and>
        (case auctionReducer (Bidding b) (PLACE_BID t 50) of
           Bidding b' \<Rightarrow> getMinimumValidBid b' = 55
         | _ \<Rightarrow> False))"
  by (simp add: getMinimumValidBid_def BID_INCREMENT_MIN_def split: option.splits)

theorem getMinimumValidBid_spec_witness:
  "currentBid ex_bidding = None \<and> basePrice (currentPlayer ex_bidding) = 50 \<and>
   getMinimumValidBid ex_bidding = 50 \<and>
   (case auctionReducer (Bidding ex_bidding) (PLACE_BID ''team-1'' 50) of
      Bidding b' \<Rightarrow> getMinimumValidBid b' = 55
    | _ \<Rightarrow> False)"
  using getMinimumValidBid_spec [of ex_bidding "''team-1''"]
  by (simp add: ex_bidding_def ex_player_def)

subsection \<open>Timer extension\<close>

text \<open>
  Claim C6.  \<open>PLACE_BID\<close> on a bidding state sets \<open>timeRemaining\<close> to the minimum of
  the previous value plus 15 and 60 (and records the bid and the message); after any
  non-empty sequence of \<open>PLACE_BID\<close> events the state is still a bidding state and its
  \<open>timeRemaining\<close> is at most 60.  Every non-empty prefix of a sequence of bids is such
  a sequence, so the bound holds after each bid.
\<close>

theorem place_bid_timer_capped:
  "auctionReducer (Bidding b) (PLACE_BID t a) =
      Bidding (b\<lparr> currentBid := Some \<lparr> bid_teamId = t, amount = a \<rparr>,
                 timeRemaining := min (timeRemaining b + 15) 60,
                 message := Some (MsgBid t a) \<rparr>)
   \<and> (bids \<noteq> [] \<longrightarrow>
        (case foldl auctionReducer (Bidding b) (map (\<lambda>(t, a). PLACE_BID t a) bids) of
           Bidding b' \<Rightarrow> timeRemaining b' \<le> 60
         | _ \<Rightarrow> False))"
proof
  show "auctionReducer (Bidding b) (PLACE_BID t a) =
      Bidding (b\<lparr> currentBid := Some \<lparr> bid_teamId = t, amount = a \<rparr>,
                 timeRemaining := min (timeRemaining b + 15) 60,
                 message := Some (MsgBid t a) \<rparr>)"
    by (simp add: calculateTimeAfterBid_def TIME_EXTENSION_ON_BID_def MAX_TIME_EXTENSION_def)
next
  show "bids \<noteq> [] \<longrightarrow>
        (case foldl auctionReducer (Bidding b) (map (\<lambda>(t, a). PLACE_BID t a) bids) of
           Bidding b' \<Rightarrow> timeRemaining b' \<le> 60
         | _ \<Rightarrow> False)"
  proof (cases bids rule: rev_cases)
    case Nil
    then show ?thesis by simp
  next
    case (snoc earlier last_bid)
    obtain b1 where b1:
      "foldl auctionReducer (Bidding b) (map (\<lambda>(t, a). PLACE_BID t a) earlier) = Bidding b1"
      using place_bids_stay_bidding by blast
    obtain t1 a1 where l: "last_bid = (t1, a1)" by (cases last_bid)
    show ?thesis
      using snoc b1 l calculateTimeAfterBid_le [of "timeRemaining b1"] by simp
  qed
qed

theorem place_bid_timer_capped_witness:
  "auctionReducer (Bidding ex_bidding) (PLACE_BID ''team-1'' 50) =
      Bidding (ex_bidding\<lparr> currentBid := Some \<lparr> bid_teamId = ''team-1'', amount = 50 \<rparr>,
                 timeRemaining := 60, message := Some (MsgBid ''team-1'' 50) \<rparr>)
   \<and> [(''team-1'', 50), (''team-3'', 55::int)] \<noteq> []
   \<and> (case foldl auctionReducer (Bidding ex_bidding)
              (map (\<lambda>(t, a). PLACE_BID t a) [(''team-1'', 50), (''team-3'', 55)]) of
         Bidding b' \<Rightarrow> timeRemaining b' \<le> 60
       | _ \<Rightarrow> False)"
  using place_bid_timer_capped
          [of ex_bidding "''team-1''" 50 "[(''team-1'', 50), (''team-3'', 55)]"]
  by (simp add: ex_bidding_def)

subsection \<open>End of a round\<close>

text \<open>
  Claim C4.  \<open>TIME_EXPIRED\<close> or \<open>PLAYER_SOLD\<close> on a bidding state whose current bid
  is team \<open>t\<close> at amount \<open>a\<close> gives a sold state: the id of the current player is
  appended once to \<open>completedPlayerIds\<close>, the team list keeps its length and order, an
  entry with team id \<open>t\<close> has its remaining budget reduced by exactly \<open>a\<close> and the
  acquired player (current player's id, price \<open>a\<close>) appended to its squad, and every
  entry with another team id is unchanged.
\<close>

theorem sale_finalizes_purchase:
  assumes bid: "currentBid b = Some \<lparr> bid_teamId = t, amount = a \<rparr>"
    and ev: "ev = TIME_EXPIRED \<or> ev = PLAYER_SOLD"
  shows "phase (auctionReducer (Bidding b) ev) = PhaseSold
    \<and> stateCompletedPlayerIds (auctionReducer (Bidding b) ev) =
        completedPlayerIds b @ [player_id (currentPlayer b)]
    \<and> length (stateTeams (auctionReducer (Bidding b) ev)) = length (teams b)
    \<and> (\<forall>i < length (teams b).
         (teamId (teams b ! i) = t \<longrightarrow>
            teamId (stateTeams (auctionReducer (Bidding b) ev) ! i) = t
          \<and> remainingBudget (stateTeams (auctionReducer (Bidding b) ev) ! i) =
              remainingBudget (teams b ! i) - a
          \<and> squad (stateTeams (auctionReducer (Bidding b) ev) ! i) =
              squad (teams b ! i) @
                [\<lparr> playerId = player_id (currentPlayer b), purchasePrice = a \<rparr>])
       \<and> (teamId (teams b ! i) \<noteq> t \<longrightarrow>
            stateTeams (auctionReducer (Bidding b) ev) ! i = teams b ! i))"
  using ev
proof
  assume "ev = TIME_EXPIRED"
  then show ?thesis
    using bid
    by (simp add: updateTeamsAfterSale_length updateTeamsAfterSale_nth
        finalizePlayerPurchase_def)
next
  assume "ev = PLAYER_SOLD"
  then show ?thesis
    using bid
    by (simp add: updateTeamsAfterSale_length updateTeamsAfterSale_nth
        finalizePlayerPurchase_def)
qed

theorem sale_finalizes_purchase_witness:
  "currentBid ex_bidding_bid = Some \<lparr> bid_teamId = ''team-3'', amount = 120 \<rparr>
   \<and> phase (auctionReducer (Bidding ex_bidding_bid) TIME_EXPIRED) = PhaseSold
   \<and> stateCompletedPlayerIds (auctionReducer (Bidding ex_bidding_bid) TIME_EXPIRED) = [''p1'']
   \<and> teamId (teams ex_bidding_bid ! 1) = ''team-3''
   \<and> remainingBudget (stateTeams (auctionReducer (Bidding ex_bidding_bid) TIME_EXPIRED) ! 1) = 380
   \<and> squad (stateTeams (auctionReducer (Bidding ex_bidding_bid) TIME_EXPIRED) ! 1) =
        [\<lparr> playerId = ''p1'', purchasePrice = 120 \<rparr>]
   \<and> stateTeams (auctionReducer (Bidding ex_bidding_bid) TIME_EXPIRED) ! 0 =
        \<lparr> teamId = ''team-1'', remainingBudget = 1000, squad = [] \<rparr>"
proof -
  have h: "currentBid ex_bidding_bid = Some \<lparr> bid_teamId = ''team-3'', amount = 120 \<rparr>"
    by (simp add: ex_bidding_bid_def ex_bidding_def)
  have l: "length (teams ex_bidding_bid) = 2"
    by (simp add: ex_bidding_bid_def ex_bidding_def ex_teams_def)
  have t0: "teams ex_bidding_bid ! 0 = \<lparr> teamId = ''team-1'', remainingBudget = 1000, squad = [] \<rparr>"
    by (simp add: ex_bidding_bid_def ex_bidding_def ex_teams_def)
  have t1: "teams ex_bidding_bid ! 1 = \<lparr> teamId = ''team-3'', remainingBudget = 500, squad = [] \<rparr>"
    by (simp add: ex_bidding_bid_def ex_bidding_def ex_teams_def)
  have p: "player_id (currentPlayer ex_bidding_bid) = ''p1''"
       "completedPlayerIds ex_bidding_bid = []"
    by (simp_all add: ex_bidding_bid_def ex_bidding_def ex_player_def)
  note s = sale_finalizes_purchase [OF h, of TIME_EXPIRED, simplified]
  from s have a: "phase (auctionReducer (Bidding ex_bidding_bid) TIME_EXPIRED) = PhaseSold"
    and c: "stateCompletedPlayerIds (auctionReducer (Bidding ex_bidding_bid) TIME_EXPIRED) = [''p1'']"
    using p by simp_all
  from s have q: "\<forall>i < 2.
         (teamId (teams ex_bidding_bid ! i) = ''team-3'' \<longrightarrow>
            teamId (stateTeams (auctionReducer (Bidding ex_bidding_bid) TIME_EXPIRED) ! i) = ''team-3''
          \<and> remainingBudget (stateTeams (auctionReducer (Bidding ex_bidding_bid) TIME_EXPIRED) ! i) =
              remainingBudget (teams ex_bidding_bid ! i) - 120
          \<and> squad (stateTeams (auctionReducer (Bidding ex_bidding_bid) TIME_EXPIRED) ! i) =
              squad (teams ex_bidding_bid ! i) @
                [\<lparr> playerId = ''p1'', purchasePrice = 120 \<rparr>])
       \<and> (teamId (teams ex_bidding_bid ! i) \<noteq> ''team-3'' \<longrightarrow>
            stateTeams (auctionReducer (Bidding ex_bidding_bid) TIME_EXPIRED) ! i = teams ex_bidding_bid ! i)"
    using l p by simp
  from q [rule_format, of 0] q [rule_format, of 1] show ?thesis
    using h a c t0 t1 by simp
qed

text \<open>
  Claim C2, as the code has it.  With no current bid, \<open>TIME_EXPIRED\<close> on a bidding state
  gives an unsold state with the team list unchanged and the current player's id appended
  to \<open>completedPlayerIds\<close>.  \<open>PLAYER_SOLD\<close> is guarded by
  \<open>state.currentBid === null\<close> and returns the bidding state unchanged.
\<close>

theorem no_bid_expiry:
  assumes "currentBid b = None"
  shows "phase (auctionReducer (Bidding b) TIME_EXPIRED) = PhaseUnsold
    \<and> stateTeams (auctionReducer (Bidding b) TIME_EXPIRED) = teams b
    \<and> stateCompletedPlayerIds (auctionReducer (Bidding b) TIME_EXPIRED) =
        completedPlayerIds b @ [player_id (currentPlayer b)]
    \<and> auctionReducer (Bidding b) PLAYER_SOLD = Bidding b"
  using assms by simp

theorem no_bid_expiry_witness:
  "currentBid ex_bidding = None
   \<and> phase (auctionReducer (Bidding ex_bidding) TIME_EXPIRED) = PhaseUnsold
   \<and> stateTeams (auctionReducer (Bidding ex_bidding) TIME_EXPIRED) = ex_teams
   \<and> stateCompletedPlayerIds (auctionReducer (Bidding ex_bidding) TIME_EXPIRED) = [''p1'']
   \<and> auctionReducer (Bidding ex_bidding) PLAYER_SOLD = Bidding ex_bidding"
proof -
  have h: "currentBid ex_bidding = None" by (simp add: ex_bidding_def)
  show ?thesis
    using h no_bid_expiry [OF h] by (simp add: ex_bidding_def ex_player_def)
qed

text \<open>
  The claim as written fails for \<open>PLAYER_SOLD\<close>: on a bidding state without a bid the
  result is not an unsold state and the completed list does not grow.
\<close>

theorem player_sold_no_bid_counterexample:
  "currentBid ex_bidding = None
   \<and> phase (auctionReducer (Bidding ex_bidding) PLAYER_SOLD) \<noteq> PhaseUnsold
   \<and> stateCompletedPlayerIds (auctionReducer (Bidding ex_bidding) PLAYER_SOLD) \<noteq>
       completedPlayerIds ex_bidding @ [player_id (currentPlayer ex_bidding)]"
  by (simp add: ex_bidding_def)

subsection \<open>Events outside their phase\<close>

text \<open>
  Claim C3, as the code has it.  \<open>START_BIDDING\<close> outside the idle phase, and
  \<open>PLACE_BID\<close>, \<open>INVALID_BID\<close>, \<open>TIMER_TICK\<close>, \<open>TIME_EXPIRED\<close>, \<open>PLAYER_SOLD\<close>
  and \<open>PLAYER_UNSOLD\<close> outside the bidding phase, return the state unchanged.
  \<open>RESET_TO_IDLE\<close> has no phase guard: from every phase it returns the idle state that
  keeps \<open>completedPlayerIds\<close> and \<open>teams\<close> and clears the message.
\<close>

theorem out_of_phase_events:
  "(phase s \<noteq> PhaseIdle \<longrightarrow> auctionReducer s (START_BIDDING p) = s)
   \<and> (phase s \<noteq> PhaseBidding \<longrightarrow>
        auctionReducer s (PLACE_BID t a) = s
      \<and> auctionReducer s (INVALID_BID r) = s
      \<and> auctionReducer s TIMER_TICK = s
      \<and> auctionReducer s TIME_EXPIRED = s
      \<and> auctionReducer s PLAYER_SOLD = s
      \<and> auctionReducer s PLAYER_UNSOLD = s)
   \<and> auctionReducer s RESET_TO_IDLE =
        Idle \<lparr> completedPlayerIds = stateCompletedPlayerIds s, teams = stateTeams s,
               message = None \<rparr>"
  by (cases s) simp_all

theorem out_of_phase_events_witness:
  "phase (Bidding ex_bidding) \<noteq> PhaseIdle
   \<and> auctionReducer (Bidding ex_bidding) (START_BIDDING ex_player) = Bidding ex_bidding
   \<and> phase (createInitialState ex_team_list) \<noteq> PhaseBidding
   \<and> auctionReducer (createInitialState ex_team_list) (PLACE_BID ''team-1'' 50) =
       createInitialState ex_team_list
   \<and> auctionReducer (createInitialState ex_team_list) TIME_EXPIRED =
       createInitialState ex_team_list
   \<and> auctionReducer (Bidding ex_bidding) RESET_TO_IDLE =
       Idle \<lparr> completedPlayerIds = [], teams = ex_teams, message = None \<rparr>"
  using out_of_phase_events [of "Bidding ex_bidding" ex_player]
    out_of_phase_events [of "createInitialState ex_team_list" _ "''team-1''" 50]
  by (simp add: createInitialState_def ex_bidding_def)

text \<open>
  The claim as written fails for \<open>RESET_TO_IDLE\<close>: dispatched on a bidding state, which
  is neither sold nor unsold, it changes the state.
\<close>

theorem reset_outside_round_end_counterexample:
  "phase (Bidding ex_bidding) \<noteq> PhaseSold \<and> phase (Bidding ex_bidding) \<noteq> PhaseUnsold
   \<and> auctionReducer (Bidding ex_bidding) RESET_TO_IDLE \<noteq> Bidding ex_bidding"
  by simp

section \<open>Properties of the validation engine\<close>

lemma validatePlayerAcquisition_errors:
  "errors (validatePlayerAcquisition ts p bid cat c) =
     errors (validateBudget ts bid) @ errors (validateSquadSize ts c) @
     errors (validateRoleLimits ts p cat c) @ errors (validateOverseasLimits ts p cat c)"
proof -
  have e: "\<And>r. (if \<not> isValid r then xs @ errors r else xs) = xs @ errors r" for xs
    by (case_tac r) simp_all
  show ?thesis
    unfolding validatePlayerAcquisition_def Let_def e by simp
qed

lemma validateBudget_codes:
  "map code (errors (validateBudget ts bid)) =
     (if bid > remainingBudget ts then [INSUFFICIENT_BUDGET] else [])"
  by (simp add: validateBudget_def)

lemma validateSquadSize_codes:
  "map code (errors (validateSquadSize ts c)) =
     (if int (length (squad ts)) \<ge> maxSquadSize c then [SQUAD_FULL] else [])"
  by (simp add: validateSquadSize_def)

lemma validateRoleLimits_codes:
  "map code (errors (validateRoleLimits ts p cat c)) =
     (if (case countPlayersByRole (squad ts) cat (role p) of Some n \<Rightarrow> int n | None \<Rightarrow> 0)
          \<ge> max_r (roleConstraints c (role p))
      then [ROLE_LIMIT_EXCEEDED] else [])"
  by (simp add: validateRoleLimits_def Let_def)

lemma validateOverseasLimits_codes:
  "map code (errors (validateOverseasLimits ts p cat c)) =
     (if nationality p = Overseas \<and>
         int (countOverseasPlayers (squad ts) cat) \<ge> maxOverseasPlayers c
      then [OVERSEAS_LIMIT_EXCEEDED] else [])"
  by (simp add: validateOverseasLimits_def Let_def)

text \<open>
  Claim C5.  \<open>validatePlayerAcquisition\<close> runs the four checks whatever the earlier ones
  returned: its violations are those of the budget check, then of the squad-size check,
  then of the role-limit check, then of the overseas check.  Read as codes, each check
  contributes its code exactly when its own condition fails.  The result is valid only
  when no check failed, and a bid that fails both the budget and the role-limit check
  carries both violations, the budget one first.
\<close>

theorem validatePlayerAcquisition_accumulates:
  "errors (validatePlayerAcquisition ts p bid cat c) =
     errors (validateBudget ts bid) @ errors (validateSquadSize ts c) @
     errors (validateRoleLimits ts p cat c) @ errors (validateOverseasLimits ts p cat c)
   \<and> map code (errors (validatePlayerAcquisition ts p bid cat c)) =
       (if bid > remainingBudget ts then [INSUFFICIENT_BUDGET] else []) @
       (if int (length (squad ts)) \<ge> maxSquadSize c then [SQUAD_FULL] else []) @
       (if (case countPlayersByRole (squad ts) cat (role p) of Some n \<Rightarrow> int n | None \<Rightarrow> 0)
            \<ge> max_r (roleConstraints c (role p))
        then [ROLE_LIMIT_EXCEEDED] else []) @
       (if nationality p = Overseas \<and>
           int (countOverseasPlayers (squad ts) cat) \<ge> maxOverseasPlayers c
        then [OVERSEAS_LIMIT_EXCEEDED] else [])
   \<and> (isValid (validatePlayerAcquisition ts p bid cat c) \<longleftrightarrow>
        errors (validatePlayerAcquisition ts p bid cat c) = [])
   \<and> (\<not> isValid (validateBudget ts bid) \<and> \<not> isValid (validateRoleLimits ts p cat c) \<longrightarrow>
        (\<exists>e1 e2 mid rest.
           errors (validatePlayerAcquisition ts p bid cat c) = e1 # mid @ e2 # rest
           \<and> code e1 = INSUFFICIENT_BUDGET \<and> code e2 = ROLE_LIMIT_EXCEEDED))"
proof (intro conjI)
  show "errors (validatePlayerAcquisition ts p bid cat c) =
     errors (validateBudget ts bid) @ errors (validateSquadSize ts c) @
     errors (validateRoleLimits ts p cat c) @ errors (validateOverseasLimits ts p cat c)"
    by (rule validatePlayerAcquisition_errors)
next
  show "map code (errors (validatePlayerAcquisition ts p bid cat c)) =
       (if bid > remainingBudget ts then [INSUFFICIENT_BUDGET] else []) @
       (if int (length (squad ts)) \<ge> maxSquadSize c then [SQUAD_FULL] else []) @
       (if (case countPlayersByRole (squad ts) cat (role p) of Some n \<Rightarrow> int n | None \<Rightarrow> 0)
            \<ge> max_r (roleConstraints c (role p))
        then [ROLE_LIMIT_EXCEEDED] else []) @
       (if nationality p = Overseas \<and>
           int (countOverseasPlayers (squad ts) cat) \<ge> maxOverseasPlayers c
        then [OVERSEAS_LIMIT_EXCEEDED] else [])"
    unfolding validatePlayerAcquisition_errors map_append
      validateBudget_codes validateSquadSize_codes validateRoleLimits_codes
      validateOverseasLimits_codes ..
next
  show "isValid (validatePlayerAcquisition ts p bid cat c) \<longleftrightarrow>
        errors (validatePlayerAcquisition ts p bid cat c) = []"
    by (simp add: validatePlayerAcquisition_def Let_def)
next
  show "\<not> isValid (validateBudget ts bid) \<and> \<not> isValid (validateRoleLimits ts p cat c) \<longrightarrow>
        (\<exists>e1 e2 mid rest.
           errors (validatePlayerAcquisition ts p bid cat c) = e1 # mid @ e2 # rest
           \<and> code e1 = INSUFFICIENT_BUDGET \<and> code e2 = ROLE_LIMIT_EXCEEDED)"
  proof
    assume a: "\<not> isValid (validateBudget ts bid) \<and> \<not> isValid (validateRoleLimits ts p cat c)"
    then obtain e1 where e1: "errors (validateBudget ts bid) = [e1]" "code e1 = INSUFFICIENT_BUDGET"
      by (auto simp: validateBudget_def split: if_splits)
    from a obtain e2 where e2: "errors (validateRoleLimits ts p cat c) = [e2]"
        "code e2 = ROLE_LIMIT_EXCEEDED"
      by (auto simp: validateRoleLimits_def Let_def split: if_splits)
    show "\<exists>e1 e2 mid rest.
           errors (validatePlayerAcquisition ts p bid cat c) = e1 # mid @ e2 # rest
           \<and> code e1 = INSUFFICIENT_BUDGET \<and> code e2 = ROLE_LIMIT_EXCEEDED"
      unfolding validatePlayerAcquisition_errors using e1 e2 by auto
  qed
qed

theorem validatePlayerAcquisition_accumulates_witness:
  "\<not> isValid (validateBudget ex_keepers_team 45)
   \<and> \<not> isValid (validateRoleLimits ex_keepers_team ex_player ex_catalog
                   DEFAULT_SQUAD_CONSTRAINTS)
   \<and> \<not> isValid (validatePlayerAcquisition ex_keepers_team ex_player 45 ex_catalog
                   DEFAULT_SQUAD_CONSTRAINTS)
   \<and> map code (errors (validatePlayerAcquisition ex_keepers_team ex_player 45 ex_catalog
                         DEFAULT_SQUAD_CONSTRAINTS)) =
       [INSUFFICIENT_BUDGET, ROLE_LIMIT_EXCEEDED]"
proof -
  have b: "\<not> isValid (validateBudget ex_keepers_team 45)"
    by (simp add: validateBudget_def ex_keepers_team_def)
  have r: "\<not> isValid (validateRoleLimits ex_keepers_team ex_player ex_catalog
                   DEFAULT_SQUAD_CONSTRAINTS)"
    by (simp add: validateRoleLimits_def ex_keepers_team_def ex_player_def ex_catalog_def
        ex_keeper_def DEFAULT_SQUAD_CONSTRAINTS_def playerMap_def countPlayersByRole_def)
  have facts:
    "remainingBudget ex_keepers_team = 40"
    "length (squad ex_keepers_team) = 3"
    "role ex_player = WicketKeeper"
    "nationality ex_player = Domestic"
    "maxSquadSize DEFAULT_SQUAD_CONSTRAINTS = 25"
    "max_r (roleConstraints DEFAULT_SQUAD_CONSTRAINTS WicketKeeper) = 3"
    by (simp_all add: ex_keepers_team_def ex_player_def DEFAULT_SQUAD_CONSTRAINTS_def)
  have cnt: "countPlayersByRole (squad ex_keepers_team) ex_catalog WicketKeeper = Some 3"
    by (simp add: ex_keepers_team_def ex_player_def ex_catalog_def
        ex_keeper_def playerMap_def countPlayersByRole_def)
  note t = validatePlayerAcquisition_accumulates
             [of ex_keepers_team ex_player 45 ex_catalog DEFAULT_SQUAD_CONSTRAINTS]
  from t [THEN conjunct2, THEN conjunct1]
  have c: "map code (errors (validatePlayerAcquisition ex_keepers_team ex_player 45
                     ex_catalog DEFAULT_SQUAD_CONSTRAINTS)) =
       [INSUFFICIENT_BUDGET, ROLE_LIMIT_EXCEEDED]"
    by (simp add: facts cnt)
  from t [THEN conjunct2, THEN conjunct2, THEN conjunct1] c have v: "\<not> isValid (validatePlayerAcquisition ex_keepers_team ex_player 45 ex_catalog
                   DEFAULT_SQUAD_CONSTRAINTS)"
    by auto
  show ?thesis using b r c v by simp
qed

text \<open>
  Claim C10, as the code has it.  \<open>validateBid\<close> looks the team up first.  When the team
  id belongs to a team of the state and the amount is strictly below the minimum valid
  bid, the result is invalid with the single violation \<open>BID_TOO_LOW\<close>; the acquisition
  checks are not consulted.  The witness is a bid for which the acquisition checks would
  report a budget and a role-limit violation.
\<close>

theorem validateBid_too_low:
  assumes team: "tid \<in> teamId ` set (teams b)"
    and low: "bid < getMinimumValidBid b"
  shows "\<not> isValid (validateBid b tid bid cat)
    \<and> map code (errors (validateBid b tid bid cat)) = [BID_TOO_LOW]"
proof -
  from team have "find (\<lambda>t. teamId t = tid) (teams b) \<noteq> None"
    by (auto simp: find_None_iff)
  then obtain ts where "find (\<lambda>t. teamId t = tid) (teams b) = Some ts"
    by blast
  then show ?thesis
    using low by (simp add: validateBid_def Let_def)
qed

theorem validateBid_too_low_witness:
  "''team-2'' \<in> teamId ` set (teams ex_bidding_keepers)
   \<and> 45 < getMinimumValidBid ex_bidding_keepers
   \<and> \<not> isValid (validateBid ex_bidding_keepers ''team-2'' 45 ex_catalog)
   \<and> map code (errors (validateBid ex_bidding_keepers ''team-2'' 45 ex_catalog)) = [BID_TOO_LOW]
   \<and> map code (errors (validatePlayerAcquisition ex_keepers_team
                         (currentPlayer ex_bidding_keepers) 45 ex_catalog
                         DEFAULT_SQUAD_CONSTRAINTS)) =
       [INSUFFICIENT_BUDGET, ROLE_LIMIT_EXCEEDED]"
proof -
  have t: "''team-2'' \<in> teamId ` set (teams ex_bidding_keepers)"
    by (simp add: ex_bidding_keepers_def ex_bidding_def ex_keepers_team_def)
  have l: "45 < getMinimumValidBid ex_bidding_keepers"
    by (simp add: getMinimumValidBid_def ex_bidding_keepers_def ex_bidding_def ex_player_def)
  have a: "map code (errors (validatePlayerAcquisition ex_keepers_team
                         (currentPlayer ex_bidding_keepers) 45 ex_catalog
                         DEFAULT_SQUAD_CONSTRAINTS)) =
       [INSUFFICIENT_BUDGET, ROLE_LIMIT_EXCEEDED]"
    by (simp add: validatePlayerAcquisition_def validateBudget_def validateSquadSize_def
        validateRoleLimits_def validateOverseasLimits_def Let_def
        ex_bidding_keepers_def ex_bidding_def ex_keepers_team_def ex_player_def ex_catalog_def
        ex_keeper_def DEFAULT_SQUAD_CONSTRAINTS_def playerMap_def countPlayersByRole_def)
  show ?thesis
    using t l a validateBid_too_low [OF t l, of ex_catalog] by simp
qed

text \<open>
  The claim as written, for every team id, fails: for an id that no team of the state
  carries the single violation is \<open>NOT_YOUR_TURN\<close>, also when the amount is too low.
\<close>

theorem validateBid_unknown_team_counterexample:
  "10 < getMinimumValidBid ex_bidding
   \<and> map code (errors (validateBid ex_bidding ''team-9'' 10 ex_catalog)) = [NOT_YOUR_TURN]"
  by (simp add: getMinimumValidBid_def validateBid_def ex_bidding_def ex_player_def
      ex_teams_def)

section \<open>Properties of the recommendation engine\<close>

text \<open>
  Claim C9, as the code has it.  While the squad is below the minimum squad size the cap
  is the remaining budget minus the reserve \<open>max 0 ((playersNeeded - 1) * 20)\<close>, floored
  at 20.  Once the squad has reached the minimum size (\<open>playersNeeded = 0\<close>, reserve 0)
  the cap is the remaining budget itself, with no floor.
\<close>

theorem calculateBudgetCap_spec:
  "(int (length (squad ts)) < minSquadSize DEFAULT_SQUAD_CONSTRAINTS \<longrightarrow>
      calculateBudgetCap ts =
        max 20 (remainingBudget ts -
                max 0 ((max 0 (minSquadSize DEFAULT_SQUAD_CONSTRAINTS
                               - int (length (squad ts))) - 1) * 20))
      \<and> calculateBudgetCap ts \<ge> 20)
   \<and> (int (length (squad ts)) \<ge> minSquadSize DEFAULT_SQUAD_CONSTRAINTS \<longrightarrow>
        calculateBudgetCap ts = remainingBudget ts)"
  by (simp add: calculateBudgetCap_def Let_def DEFAULT_SQUAD_CONSTRAINTS_def)

theorem calculateBudgetCap_spec_witness:
  "int (length (squad ex_fresh_team)) < minSquadSize DEFAULT_SQUAD_CONSTRAINTS
   \<and> calculateBudgetCap ex_fresh_team = 720
   \<and> int (length (squad ex_keepers_team)) < minSquadSize DEFAULT_SQUAD_CONSTRAINTS
   \<and> calculateBudgetCap ex_keepers_team = 20
   \<and> int (length (squad ex_complete_team)) \<ge> minSquadSize DEFAULT_SQUAD_CONSTRAINTS
   \<and> calculateBudgetCap ex_complete_team = 10"
  using calculateBudgetCap_spec [of ex_fresh_team] calculateBudgetCap_spec [of ex_keepers_team]
    calculateBudgetCap_spec [of ex_complete_team]
  by (simp add: ex_fresh_team_def ex_keepers_team_def ex_complete_team_def
      DEFAULT_SQUAD_CONSTRAINTS_def)

text \<open>
  The claim as written fails for a complete squad: with fifteen players and 10 left the
  cap is 10, below 20.
\<close>

theorem calculateBudgetCap_counterexample:
  "int (length (squad ex_complete_team)) \<ge> minSquadSize DEFAULT_SQUAD_CONSTRAINTS
   \<and> remainingBudget ex_complete_team = 10
   \<and> calculateBudgetCap ex_complete_team < 20"
  by (simp add: calculateBudgetCap_def Let_def ex_complete_team_def
      DEFAULT_SQUAD_CONSTRAINTS_def)

section \<open>The budget invariant\<close>
















section \<open>Rounding to a double is monotone\<close>

lemma rne_floor_bounds: "\<lfloor>m\<rfloor> \<le> rne m \<and> rne m \<le> \<lfloor>m\<rfloor> + 1"
  by (simp add: rne_def Let_def)

lemma rne_of_int: "rne (of_int n) = n"
  by (simp add: rne_def Let_def)

lemma rne_mono:
  assumes "a \<le> b"
  shows "rne a \<le> rne b"
proof (cases "\<lfloor>a\<rfloor> = \<lfloor>b\<rfloor>")
  case True
  then have "a - of_int \<lfloor>a\<rfloor> \<le> b - of_int \<lfloor>b\<rfloor>" using assms by simp
  then show ?thesis
    using True by (auto simp: rne_def Let_def)
next
  case False
  with assms have "\<lfloor>a\<rfloor> < \<lfloor>b\<rfloor>"
    using floor_mono [of a b] by linarith
  then show ?thesis
    using rne_floor_bounds [of a] rne_floor_bounds [of b] by linarith
qed

lemma isPow2_pos: "isPow2 b \<Longrightarrow> 0 < b"
  by (auto simp: isPow2_def)

lemma isPow2_one: "isPow2 1"
  unfolding isPow2_def by (rule exI [of _ 0]) simp

lemma isPow2_double: "isPow2 b \<Longrightarrow> isPow2 (2 * b)"
  unfolding isPow2_def
proof (elim exE)
  fix k :: int
  assume "b = 2 powi k"
  then have "2 * b = 2 powi (k + 1)" by (simp add: power_int_add)
  then show "\<exists>j::int. 2 * b = 2 powi j" by blast
qed

lemma isPow2_half: "isPow2 b \<Longrightarrow> isPow2 (b / 2)"
  unfolding isPow2_def
proof (elim exE)
  fix k :: int
  assume "b = 2 powi k"
  then have "b / 2 = 2 powi (k - 1)" by (simp add: power_int_diff)
  then show "\<exists>j::int. b / 2 = 2 powi j" by blast
qed

lemma isPow2_gap:
  assumes "isPow2 a" "isPow2 b" "a < b"
  shows "2 * a \<le> b"
proof -
  from assms(1,2) obtain i j :: int where a: "a = 2 powi i" and b: "b = 2 powi j"
    by (auto simp: isPow2_def)
  have "i < j"
  proof (rule ccontr)
    assume "\<not> i < j"
    then have "j \<le> i" by simp
    then have "(2::rat) powi j \<le> 2 powi i" by (intro power_int_increasing) simp_all
    with assms(3) a b show False by simp
  qed
  then have "i + 1 \<le> j" by simp
  then have "(2::rat) powi (i + 1) \<le> 2 powi j" by (intro power_int_increasing) simp_all
  then show ?thesis using a b by (simp add: power_int_add)
qed

lemma pow2_up_props:
  "1 \<le> x \<Longrightarrow> isPow2 (pow2_up x) \<and> pow2_up x \<le> x \<and> x < 2 * pow2_up x"
proof (induction x rule: pow2_up.induct)
  case (1 x)
  show ?case
  proof (cases "2 \<le> x")
    case True
    then have "1 \<le> x / 2" by simp
    with "1.IH" True have ih: "isPow2 (pow2_up (x / 2))" "pow2_up (x / 2) \<le> x / 2"
        "x / 2 < 2 * pow2_up (x / 2)"
      by simp_all
    have e: "pow2_up x = 2 * pow2_up (x / 2)"
      using True by (subst pow2_up.simps) simp
    from ih show ?thesis
      unfolding e by (auto intro: isPow2_double)
  next
    case False
    then have "pow2_up x = 1" by (subst pow2_up.simps) simp
    with False "1.prems" show ?thesis by (simp add: isPow2_one)
  qed
qed

lemma pow2_down_props:
  "0 < x \<Longrightarrow> x < 1 \<Longrightarrow> isPow2 (pow2_down x) \<and> pow2_down x \<le> x \<and> x < 2 * pow2_down x"
proof (induction x rule: pow2_down.induct)
  case (1 x)
  from "1.prems" have e: "pow2_down x = pow2_down (2 * x) / 2"
    by (subst pow2_down.simps) simp
  show ?case
  proof (cases "2 * x < 1")
    case True
    with "1.IH" "1.prems" have ih: "isPow2 (pow2_down (2 * x))" "pow2_down (2 * x) \<le> 2 * x"
        "2 * x < 2 * pow2_down (2 * x)"
      by simp_all
    from ih show ?thesis
      unfolding e by (auto intro: isPow2_half)
  next
    case False
    then have "pow2_down (2 * x) = 1" by (subst pow2_down.simps) simp
    with False "1.prems" show ?thesis
      unfolding e using isPow2_half [OF isPow2_one] by simp
  qed
qed

lemma binade_props:
  "0 < x \<Longrightarrow> isPow2 (binade x) \<and> binade x \<le> x \<and> x < 2 * binade x"
  using pow2_up_props [of x] pow2_down_props [of x]
  by (cases "1 \<le> x") (simp_all add: binade_def)

lemma binade_step:
  assumes "0 < x" "x \<le> y"
  shows "binade x = binade y \<or> 2 * binade x \<le> binade y"
proof -
  from assms have y: "0 < y" by simp
  note px = binade_props [OF assms(1)] and py = binade_props [OF y]
  have "\<not> binade y < binade x"
  proof
    assume "binade y < binade x"
    with px py have "2 * binade y \<le> binade x" by (simp add: isPow2_gap)
    with px py assms(2) show False by linarith
  qed
  then have "binade x = binade y \<or> binade x < binade y" by linarith
  with px py show ?thesis by (auto simp: isPow2_gap)
qed

lemma fl_pos_bounds:
  assumes "0 < x"
  shows "binade x \<le> fl_pos x \<and> fl_pos x \<le> 2 * binade x"
proof -
  note p = binade_props [OF assms]
  define u where "u = binade x / 2 ^ 52"
  have u: "0 < u" using p by (simp add: u_def isPow2_pos)
  have b: "binade x = 2 ^ 52 * u" by (simp add: u_def)
  have lo: "(2::rat) ^ 52 \<le> x / u" using p u b by (simp add: pos_le_divide_eq)
  have hi: "x / u \<le> 2 ^ 53" using p u b by (simp add: pos_divide_le_eq)
  have "rne (of_int (2 ^ 52)) \<le> rne (x / u)" using lo by (intro rne_mono) simp
  then have l: "(2::int) ^ 52 \<le> rne (x / u)" by (simp only: rne_of_int)
  have "rne (x / u) \<le> rne (of_int (2 ^ 53))" using hi by (intro rne_mono) simp
  then have h: "rne (x / u) \<le> (2::int) ^ 53" by (simp only: rne_of_int)
  from l have "(2::rat) ^ 52 \<le> of_int (rne (x / u))"
    by (metis of_int_le_iff of_int_numeral of_int_power)
  then have l': "2 ^ 52 * u \<le> of_int (rne (x / u)) * u" using u by simp
  from h have "of_int (rne (x / u)) \<le> (2::rat) ^ 53"
    by (metis of_int_le_iff of_int_numeral of_int_power)
  then have h': "of_int (rne (x / u)) * u \<le> 2 ^ 53 * u" using u by simp
  have f: "fl_pos x = of_int (rne (x / u)) * u" by (simp add: fl_pos_def u_def Let_def)
  show ?thesis unfolding f using l' h' b by simp
qed

lemma fl_pos_mono:
  assumes "0 < x" "x \<le> y"
  shows "fl_pos x \<le> fl_pos y"
proof -
  from assms have y: "0 < y" by simp
  from binade_step [OF assms] show ?thesis
  proof
    assume e: "binade x = binade y"
    define u where "u = binade y / 2 ^ 52"
    have u: "0 < u" using binade_props [OF y] by (simp add: u_def isPow2_pos)
    have "x / u \<le> y / u" using assms(2) u by (simp add: divide_right_mono)
    then have "rne (x / u) \<le> rne (y / u)" by (rule rne_mono)
    then have "(of_int (rne (x / u)) :: rat) * u \<le> of_int (rne (y / u)) * u"
      using u by simp
    then show ?thesis by (simp add: fl_pos_def Let_def e u_def)
  next
    assume "2 * binade x \<le> binade y"
    with fl_pos_bounds [OF assms(1)] fl_pos_bounds [OF y] show ?thesis by linarith
  qed
qed

lemma fl_pos_nonneg: "0 < x \<Longrightarrow> 0 \<le> fl_pos x"
  using fl_pos_bounds [of x] binade_props [of x] isPow2_pos [of "binade x"] by linarith

lemma fl_mono:
  assumes "x \<le> y"
  shows "fl x \<le> fl y"
proof -
  consider "0 < x" | "x \<le> 0" "0 \<le> y" | "y < 0" by linarith
  then show ?thesis
  proof cases
    case 1
    with assms show ?thesis by (simp add: fl_def fl_pos_mono)
  next
    case 2
    have "fl x \<le> 0" using 2(1) fl_pos_nonneg [of "- x"] by (simp add: fl_def)
    moreover have "0 \<le> fl y" using 2(2) fl_pos_nonneg [of y] by (simp add: fl_def)
    ultimately show ?thesis by simp
  next
    case 3
    with assms have "fl_pos (- y) \<le> fl_pos (- x)" by (intro fl_pos_mono) simp_all
    with 3 assms show ?thesis by (simp add: fl_def)
  qed
qed

lemma fl_nonneg: "0 \<le> x \<Longrightarrow> 0 \<le> fl x"
  using fl_mono [of 0 x] by (simp add: fl_def)

lemma floor_rat_numeral_div:
  "\<lfloor>(numeral a :: rat) / numeral b\<rfloor> = numeral a div numeral b"
  using floor_divide_of_int_eq [of "numeral a" "numeral b", where ?'a = rat] by simp

lemmas fl_eval = fl_def fl_pos_def binade_def pow2_down.simps pow2_up.simps rne_def Let_def
  floor_rat_numeral_div

lemma fl_add_mono: "a \<le> b \<Longrightarrow> fl (a + c) \<le> fl (b + c)"
  by (rule fl_mono) simp

lemma fl_add_grows:
  assumes "fl m = m" "0 \<le> c"
  shows "m \<le> fl (m + c)"
proof -
  have "fl m \<le> fl (m + c)" using assms(2) by (intro fl_mono) simp
  with assms(1) show ?thesis by simp
qed

lemma experience_representable:
  "fl 1 = 1" "fl (fl (1 + fl (3/10))) = fl (1 + fl (3/10))"
  "fl (fl (1 + fl (15/100))) = fl (1 + fl (15/100))"
  by (simp_all add: fl_eval)

section \<open>Monotonicity of the recommendation\<close>

lemma calculateQualityMultiplier_mono:
  assumes "battingAverage (stats p) = Some x" "x \<le> y"
  shows "calculateQualityMultiplier p \<le>
         calculateQualityMultiplier (p\<lparr> stats := (stats p)\<lparr> battingAverage := Some y \<rparr> \<rparr>)"
proof -
  define m1 :: rat where
    "m1 = (if matches (stats p) > 100 then fl (1 + fl (3/10))
           else if matches (stats p) > 50 then fl (1 + fl (15/100)) else 1)"
  define batting :: "rat \<Rightarrow> rat" where
    "batting a = (if a > 40 then fl (m1 + fl (4/10))
                  else if a > 30 then fl (m1 + fl (2/10)) else m1)" for a
  define later :: "rat \<Rightarrow> rat" where
    "later m2 =
       (let m3 = (case strikeRate (stats p) of
                    Some sr \<Rightarrow> (if sr > 150 then fl (m2 + fl (3/10))
                                 else if sr > 130 then fl (m2 + fl (15/100)) else m2)
                  | None \<Rightarrow> m2);
            m4 = (case bowlingAverage (stats p) of
                    Some avg \<Rightarrow> (if avg < 20 then fl (m3 + fl (4/10))
                                  else if avg < 25 then fl (m3 + fl (2/10)) else m3)
                  | None \<Rightarrow> m3);
            m5 = (case economyRate (stats p) of
                    Some er \<Rightarrow> (if er < 7 then fl (m4 + fl (3/10))
                                 else if er < 8 then fl (m4 + fl (15/100)) else m4)
                  | None \<Rightarrow> m4)
        in m5)" for m2
  have later_mono: "later a \<le> later b" if "a \<le> b" for a b
    using that
    by (auto simp: later_def Let_def split: option.splits intro!: fl_add_mono)
  have rep: "fl m1 = m1"
  proof (cases "matches (stats p) > 100")
    case True
    then have "m1 = fl (1 + fl (3/10))" unfolding m1_def by (rule if_P)
    then show ?thesis by (simp only: experience_representable)
  next
    case False
    show ?thesis
    proof (cases "matches (stats p) > 50")
      case True
      with False have "m1 = fl (1 + fl (15/100))" unfolding m1_def by (simp only: if_False if_True)
      then show ?thesis by (simp only: experience_representable)
    next
      case f: False
      with False have "m1 = 1" unfolding m1_def by (simp only: if_False)
      then show ?thesis by (simp only: experience_representable)
    qed
  qed
  have c2: "(0::rat) \<le> fl (2/10)" and c4: "(0::rat) \<le> fl (4/10)"
    by (simp_all add: fl_nonneg)
  have c24: "fl (m1 + fl (2/10)) \<le> fl (m1 + fl (4/10))"
    by (intro fl_mono add_left_mono) simp
  have batting_mono: "batting x \<le> batting y"
    using assms(2) fl_add_grows [OF rep c2] fl_add_grows [OF rep c4] c24
    by (auto simp: batting_def)
  have q: "calculateQualityMultiplier q = later (batting a)"
    if "battingAverage (stats q) = Some a" "matches (stats q) = matches (stats p)"
       "strikeRate (stats q) = strikeRate (stats p)"
       "bowlingAverage (stats q) = bowlingAverage (stats p)"
       "economyRate (stats q) = economyRate (stats p)" for q a
    unfolding calculateQualityMultiplier_def later_def batting_def m1_def Let_def that
      option.case
    by (rule refl)
  have "calculateQualityMultiplier p = later (batting x)"
    by (rule q) (simp_all add: assms(1))
  moreover have "calculateQualityMultiplier (p\<lparr> stats := (stats p)\<lparr> battingAverage := Some y \<rparr> \<rparr>)
      = later (batting y)"
    by (rule q) simp_all
  ultimately show ?thesis using later_mono [OF batting_mono] by simp
qed

lemma calculateRoleScarcity_nonneg: "0 \<le> calculateRoleScarcity r ts cat"
  by (simp add: calculateRoleScarcity_def Let_def fl_nonneg)

lemma calculateOverseasMultiplier_nonneg: "0 \<le> calculateOverseasMultiplier ts cat"
  by (simp add: calculateOverseasMultiplier_def Let_def fl_nonneg)

lemma cappedEstimate_mono:
  assumes "battingAverage (stats p) = Some x" "x \<le> y" "0 \<le> basePrice p"
  shows "cappedEstimate p ts cat \<le>
         cappedEstimate (p\<lparr> stats := (stats p)\<lparr> battingAverage := Some y \<rparr> \<rparr>) ts cat"
proof -
  let ?p' = "p\<lparr> stats := (stats p)\<lparr> battingAverage := Some y \<rparr> \<rparr>"
  let ?s = "calculateRoleScarcity (role p) ts cat"
  let ?o = "calculateOverseasMultiplier ts cat"
  have q: "calculateQualityMultiplier p \<le> calculateQualityMultiplier ?p'"
    using assms(1,2) by (rule calculateQualityMultiplier_mono)
  have bp: "(0::rat) \<le> of_int (basePrice p)" using assms(3) by simp
  have s: "0 \<le> ?s" by (rule calculateRoleScarcity_nonneg)
  have o: "0 \<le> ?o" by (rule calculateOverseasMultiplier_nonneg)
  have "of_int (basePrice p) * calculateQualityMultiplier p
          \<le> of_int (basePrice p) * calculateQualityMultiplier ?p'"
    using q bp by (rule mult_left_mono)
  then have r1: "fl (of_int (basePrice p) * calculateQualityMultiplier p)
          \<le> fl (of_int (basePrice p) * calculateQualityMultiplier ?p')"
    by (rule fl_mono)
  from r1 s have "fl (of_int (basePrice p) * calculateQualityMultiplier p) * ?s
          \<le> fl (of_int (basePrice p) * calculateQualityMultiplier ?p') * ?s"
    by (rule mult_right_mono)
  then have r2: "fl (fl (of_int (basePrice p) * calculateQualityMultiplier p) * ?s)
          \<le> fl (fl (of_int (basePrice p) * calculateQualityMultiplier ?p') * ?s)"
    by (rule fl_mono)
  from r2 o have "fl (fl (of_int (basePrice p) * calculateQualityMultiplier p) * ?s) * ?o
       \<le> fl (fl (of_int (basePrice p) * calculateQualityMultiplier ?p') * ?s) * ?o"
    by (rule mult_right_mono)
  then have r3:
    "fl (fl (fl (of_int (basePrice p) * calculateQualityMultiplier p) * ?s) * ?o)
       \<le> fl (fl (fl (of_int (basePrice p) * calculateQualityMultiplier ?p') * ?s) * ?o)"
    by (rule fl_mono)
  show ?thesis
    unfolding cappedEstimate_def Let_def using r2 r3
    by (auto simp: min_le_iff_disj)
qed

lemma math_round_mono: "a \<le> b \<Longrightarrow> math_round a \<le> math_round b"
  by (simp add: math_round_def floor_mono)

lemma math_round_of_int: "math_round (of_int n) = n"
  unfolding math_round_def by (rule floor_unique) simp_all

lemma recommendation_no_bid:
  "recommendedMaxBid (calculateBidRecommendation p ts cat None) =
     math_round (cappedEstimate p ts cat)
   \<and> ''Current Bid'' \<notin> factor ` set (reasoning (calculateBidRecommendation p ts cat None))"
  by (cases "nationality p = Overseas")
     (simp_all add: calculateBidRecommendation_def cappedEstimate_def Let_def)

lemma recommendation_floor:
  assumes "cappedEstimate p ts cat \<le> of_int c"
  shows "recommendedMaxBid (calculateBidRecommendation p ts cat (Some c)) = c + 5
   \<and> ''Current Bid'' \<in> factor ` set (reasoning (calculateBidRecommendation p ts cat (Some c)))"
  using assms math_round_of_int [of "c + 5"]
  by (cases "nationality p = Overseas")
     (simp_all add: calculateBidRecommendation_def cappedEstimate_def Let_def)

lemma recommendation_above_bid:
  assumes "\<not> cappedEstimate p ts cat \<le> of_int c"
  shows "recommendedMaxBid (calculateBidRecommendation p ts cat (Some c)) =
     math_round (cappedEstimate p ts cat)
   \<and> ''Current Bid'' \<notin> factor ` set (reasoning (calculateBidRecommendation p ts cat (Some c)))"
  using assms
  by (cases "nationality p = Overseas")
     (simp_all add: calculateBidRecommendation_def cappedEstimate_def Let_def)

lemma ex_player_fields:
  "role ex_player = WicketKeeper" "nationality ex_player = Domestic"
  "basePrice ex_player = 50" "battingAverage (stats ex_player) = Some 20"
  by (simp_all add: ex_player_def)

lemma ex_quality:
  "calculateQualityMultiplier ex_player = 1"
  "calculateQualityMultiplier (ex_player\<lparr> stats := (stats ex_player)\<lparr> battingAverage := Some 35 \<rparr> \<rparr>)
     = 5404319552844595 / 4503599627370496"
  "calculateQualityMultiplier (ex_player\<lparr> stats := (stats ex_player)\<lparr> battingAverage := Some 45 \<rparr> \<rparr>)
     = 3152519739159347 / 2251799813685248"
  by (simp_all add: calculateQualityMultiplier_def ex_player_def fl_eval)

lemma ex_scarcity:
  "calculateRoleScarcity WicketKeeper ex_fresh_team ex_catalog
     = 5404319552844595 / 4503599627370496"
  by (simp add: calculateRoleScarcity_def countPlayersByRole_def DEFAULT_SQUAD_CONSTRAINTS_def
      ex_fresh_team_def fl_eval)

lemma ex_cap: "calculateBudgetCap ex_fresh_team = 720"
  by (simp add: calculateBudgetCap_def DEFAULT_SQUAD_CONSTRAINTS_def ex_fresh_team_def)

lemma ex_capped:
  "cappedEstimate ex_player ex_fresh_team ex_catalog = 60"
  "cappedEstimate (ex_player\<lparr> stats := (stats ex_player)\<lparr> battingAverage := Some 35 \<rparr> \<rparr>)
     ex_fresh_team ex_catalog = 72"
  "cappedEstimate (ex_player\<lparr> stats := (stats ex_player)\<lparr> battingAverage := Some 45 \<rparr> \<rparr>)
     ex_fresh_team ex_catalog = 84"
  unfolding cappedEstimate_def Let_def
  by (simp_all add: ex_player_fields ex_quality ex_scarcity ex_cap fl_eval)

text \<open>
  Claim C8, as the code has it.  Take a player whose base price is not negative and raise
  only the batting average.  The recommended ceiling does not decrease, with one
  exception: there is a current bid \<open>c\<close>, the estimate at the lower average was at or
  below \<open>c\<close> and was lifted to \<open>c + 5\<close> by the current-bid stage, and the estimate at
  the higher average is above \<open>c\<close>, so that it is not lifted, but rounds to less than
  \<open>c + 5\<close>.  In that case the ceiling drops from \<open>c + 5\<close> to a value from \<open>c\<close> to
  \<open>c + 4\<close>.
\<close>

theorem recommendation_monotone:
  assumes avg: "battingAverage (stats p) = Some x"
    and le: "x \<le> y"
    and price: "0 \<le> basePrice p"
  shows "recommendedMaxBid (calculateBidRecommendation p ts cat cb) \<le>
         recommendedMaxBid
           (calculateBidRecommendation (p\<lparr> stats := (stats p)\<lparr> battingAverage := Some y \<rparr> \<rparr>)
              ts cat cb)
     \<or> (\<exists>c. cb = Some c
          \<and> ''Current Bid'' \<in>
               factor ` set (reasoning (calculateBidRecommendation p ts cat cb))
          \<and> ''Current Bid'' \<notin>
               factor ` set (reasoning
                 (calculateBidRecommendation
                    (p\<lparr> stats := (stats p)\<lparr> battingAverage := Some y \<rparr> \<rparr>) ts cat cb))
          \<and> recommendedMaxBid (calculateBidRecommendation p ts cat cb) = c + 5
          \<and> c \<le> recommendedMaxBid
                 (calculateBidRecommendation
                    (p\<lparr> stats := (stats p)\<lparr> battingAverage := Some y \<rparr> \<rparr>) ts cat cb)
          \<and> recommendedMaxBid
               (calculateBidRecommendation
                  (p\<lparr> stats := (stats p)\<lparr> battingAverage := Some y \<rparr> \<rparr>) ts cat cb)
              < c + 5)"
proof -
  let ?p' = "p\<lparr> stats := (stats p)\<lparr> battingAverage := Some y \<rparr> \<rparr>"
  have m: "cappedEstimate p ts cat \<le> cappedEstimate ?p' ts cat"
    using avg le price by (rule cappedEstimate_mono)
  show ?thesis
  proof (cases cb)
    case None
    then show ?thesis
      using m recommendation_no_bid [of p ts cat] recommendation_no_bid [of ?p' ts cat]
      by (simp add: math_round_mono)
  next
    case (Some c)
    show ?thesis
    proof (cases "cappedEstimate ?p' ts cat \<le> of_int c")
      case True
      with m have "cappedEstimate p ts cat \<le> of_int c" by simp
      with True Some show ?thesis
        using recommendation_floor [of p ts cat c] recommendation_floor [of ?p' ts cat c]
        by simp
    next
      case hi: False
      note rhi = recommendation_above_bid [OF hi]
      show ?thesis
      proof (cases "cappedEstimate p ts cat \<le> of_int c")
        case False
        with Some m rhi recommendation_above_bid [OF False] show ?thesis
          by (simp add: math_round_mono)
      next
        case True
        note rlo = recommendation_floor [OF True]
        from hi have "math_round (of_int c) \<le> math_round (cappedEstimate ?p' ts cat)"
          by (intro math_round_mono) simp
        then have "c \<le> math_round (cappedEstimate ?p' ts cat)"
          by (simp only: math_round_of_int)
        with Some rlo rhi show ?thesis
          by (cases "c + 5 \<le> math_round (cappedEstimate ?p' ts cat)") simp_all
      qed
    qed
  qed
qed

theorem recommendation_monotone_witness:
  "battingAverage (stats ex_player) = Some 20 \<and> (20::rat) \<le> 45 \<and> 0 \<le> basePrice ex_player
   \<and> recommendedMaxBid (calculateBidRecommendation ex_player ex_fresh_team ex_catalog (Some 70))
       = 75
   \<and> recommendedMaxBid
         (calculateBidRecommendation
            (ex_player\<lparr> stats := (stats ex_player)\<lparr> battingAverage := Some 45 \<rparr> \<rparr>)
            ex_fresh_team ex_catalog (Some 70)) = 84"
proof -
  have a: "battingAverage (stats ex_player) = Some 20" by (simp add: ex_player_fields)
  have l: "(20::rat) \<le> 45" by simp
  have b: "0 \<le> basePrice ex_player" by (simp add: ex_player_fields)
  have lo: "cappedEstimate ex_player ex_fresh_team ex_catalog \<le> of_int 70"
    by (simp add: ex_capped)
  have hi: "\<not> cappedEstimate
               (ex_player\<lparr> stats := (stats ex_player)\<lparr> battingAverage := Some 45 \<rparr> \<rparr>)
               ex_fresh_team ex_catalog \<le> of_int 70"
    by (simp add: ex_capped)
  have r: "math_round 84 = 84" using math_round_of_int [of 84] by simp
  have v: "recommendedMaxBid
             (calculateBidRecommendation ex_player ex_fresh_team ex_catalog (Some 70)) = 75"
    "recommendedMaxBid
         (calculateBidRecommendation
            (ex_player\<lparr> stats := (stats ex_player)\<lparr> battingAverage := Some 45 \<rparr> \<rparr>)
            ex_fresh_team ex_catalog (Some 70)) = 84"
    using recommendation_floor [OF lo] recommendation_above_bid [OF hi] r
    by (simp_all add: ex_capped)
  show ?thesis
    using a l b v recommendation_monotone [OF a l b, of ex_fresh_team ex_catalog "Some 70"]
    by simp
qed

text \<open>
  The claim as written fails in that band: with a current bid of 70 the estimate 60 of
  the average 20 is lifted to 75, while the estimate 72 of the average 35 stays 72.
\<close>

theorem recommendation_not_monotone_counterexample:
  "battingAverage (stats ex_player) = Some 20
   \<and> recommendedMaxBid (calculateBidRecommendation ex_player ex_fresh_team ex_catalog (Some 70))
       = 75
   \<and> recommendedMaxBid
         (calculateBidRecommendation
            (ex_player\<lparr> stats := (stats ex_player)\<lparr> battingAverage := Some 35 \<rparr> \<rparr>)
            ex_fresh_team ex_catalog (Some 70)) = 72"
proof -
  have lo: "cappedEstimate ex_player ex_fresh_team ex_catalog \<le> of_int 70"
    by (simp add: ex_capped)
  have hi: "\<not> cappedEstimate
               (ex_player\<lparr> stats := (stats ex_player)\<lparr> battingAverage := Some 35 \<rparr> \<rparr>)
               ex_fresh_team ex_catalog \<le> of_int 70"
    by (simp add: ex_capped)
  have r: "math_round 72 = 72" using math_round_of_int [of 72] by simp
  show ?thesis
    using recommendation_floor [OF lo] recommendation_above_bid [OF hi] r
    by (simp add: ex_capped ex_player_fields)
qed

end
